theory Spec2Isabelle
  imports Main
begin

section \<open>Values of the host language\<close>

text \<open>
  A thrown value is an object. It is modelled by its own data properties, a finite map
  from property names to string values; a property the object does not have is
  \<open>None\<close> (\<open>undefined\<close> in the source language).
\<close>

type_synonym js_object = "string \<rightharpoonup> string"

text \<open>
  The data properties every error object inherits from the built-in prototype:
  \<open>name\<close> is \<open>"Error"\<close> and \<open>message\<close> is the empty string. (The prototype's other
  properties, \<open>constructor\<close> and \<open>toString\<close>, are functions and carry no data.)
\<close>

definition Error_prototype :: js_object where
  "Error_prototype = [''name'' \<mapsto> ''Error'', ''message'' \<mapsto> '''']"

text \<open>
  \<open>new Error(msg)\<close> with a string argument, as the language standard defines it: the
  fresh object gets the own data property \<open>message\<close>. An engine may give it a further
  own property \<open>stack\<close>, a trace whose text is the engine's own (Node/V8 does); that
  property is not part of \<open>new_Error\<close>, and \<open>with_stack\<close> below adds it. So \<open>new_Error\<close>
  says what the thrown object has, not that it has nothing else.
\<close>

definition new_Error :: "string \<Rightarrow> js_object" where
  "new_Error msg = [''message'' \<mapsto> msg]"

text \<open>The error object on an engine that records the trace \<open>trace\<close> in an own \<open>stack\<close>.\<close>

definition with_stack :: "string \<Rightarrow> js_object \<Rightarrow> js_object" where
  "with_stack trace e = e(''stack'' \<mapsto> trace)"

text \<open>Property access \<open>e.k\<close> on an error object: own properties first, then the prototype.\<close>

definition get_prop :: "js_object \<Rightarrow> string \<Rightarrow> string option" where
  "get_prop e k = (case e k of Some v \<Rightarrow> Some v | None \<Rightarrow> Error_prototype k)"

section \<open>The tool gate: \<open>src/core/mode-validator.ts\<close>\<close>

text \<open>
  \<open>ToolName\<close> and \<open>Mode\<close> are string types of \<open>shared/tools\<close> and \<open>shared/modes\<close>.
  \<open>ModeConfig\<close> is declared in \<open>shared/modes\<close>, outside the fragment; the gate never looks
  inside one, so it is the type parameter \<open>'mc\<close>. \<open>Record<string, boolean>\<close> and
  \<open>Record<string, unknown>\<close> are maps from property names; the values of the second are
  the type parameter \<open>'v\<close>. An optional argument is an \<open>option\<close>: \<open>None\<close> is
  \<open>undefined\<close>, the argument omitted.
\<close>

type_synonym ToolName = string
type_synonym Mode = string
type_synonym ToolRequirements = "string \<rightharpoonup> bool"
type_synonym 'v ToolParams = "string \<rightharpoonup> 'v"

text \<open>
  \<open>isToolAllowedForMode\<close> is imported from \<open>shared/modes\<close>, which is outside the
  fragment. The gate only calls it, so it is a parameter of the model: any function from
  the five arguments to a boolean, as the import is typed.
\<close>

type_synonym ('mc, 'v) resolver =
  "ToolName \<Rightarrow> Mode \<Rightarrow> 'mc list \<Rightarrow> ToolRequirements option \<Rightarrow> 'v ToolParams option \<Rightarrow> bool"

text \<open>The nullish coalescing \<open>x ?? d\<close>: the default \<open>d\<close> when \<open>x\<close> is \<open>undefined\<close>.\<close>

definition nullish :: "'a option \<Rightarrow> 'a \<Rightarrow> 'a" where
  "nullish x d = (case x of None \<Rightarrow> d | Some y \<Rightarrow> y)"

text \<open>The template literal of the \<open>throw\<close> statement.\<close>

definition denial_message :: "ToolName \<Rightarrow> Mode \<Rightarrow> string" where
  \<open>denial_message toolName mode =
     ''Tool "'' @ toolName @ ''" is not allowed in '' @ mode @ '' mode.''\<close>

text \<open>
  \<open>validateToolUse\<close> returns \<open>void\<close> or throws: the result is \<open>Inr ()\<close> for the normal
  return and \<open>Inl e\<close> for the thrown object \<open>e\<close>. The first argument is the imported
  resolver.
\<close>

definition validateToolUse ::
  "('mc, 'v) resolver \<Rightarrow> ToolName \<Rightarrow> Mode \<Rightarrow> 'mc list option \<Rightarrow>
     ToolRequirements option \<Rightarrow> 'v ToolParams option \<Rightarrow> js_object + unit" where
  "validateToolUse isToolAllowedForMode toolName mode customModes toolRequirements toolParams =
     (if \<not> isToolAllowedForMode toolName mode (nullish customModes [])
             toolRequirements toolParams
      then Inl (new_Error (denial_message toolName mode))
      else Inr ())"

text \<open>
  A registry for concrete evaluation, the scenario of the specification's section 8:
  in mode \<open>ask\<close> the tool \<open>execute_command\<close> is not allowed, everything else is.
\<close>

definition ask_registry :: "(string, string) resolver" where
  "ask_registry toolName mode customModes toolRequirements toolParams =
     (\<not> (mode = ''ask'' \<and> toolName = ''execute_command''))"

text \<open>
  The caller's view of one call. The three object-valued arguments are references to
  mutable arrays and objects of the caller; the record holds their values. A call takes
  the caller's store and gives back the outcome and the store it leaves. The body of
  \<open>validateToolUse\<close> has no assignment and calls no mutating method: it reads the three
  values, hands them to the resolver (the \<open>[]\<close> of \<open>customModes ?? []\<close> is a fresh array
  the caller never sees), and returns or throws.
\<close>

record ('mc, 'v) caller_store =
  customModes_of :: "'mc list option"
  toolRequirements_of :: "ToolRequirements option"
  toolParams_of :: "'v ToolParams option"

definition validateToolUse_call ::
  "('mc, 'v) resolver \<Rightarrow> ToolName \<Rightarrow> Mode \<Rightarrow> ('mc, 'v) caller_store \<Rightarrow>
     (js_object + unit) \<times> ('mc, 'v) caller_store" where
  "validateToolUse_call isToolAllowedForMode toolName mode st =
     (validateToolUse isToolAllowedForMode toolName mode
        (customModes_of st) (toolRequirements_of st) (toolParams_of st), st)"

text \<open>
  Modelled from the spec: the capability resolver \<open>isToolAllowedForMode\<close> of
  \<open>shared/modes\<close>, which is outside the fragment. The specification gives its signature
  (section 6) and leaves its rule evaluation open (section 9); of the two optional
  arguments it says (section 4.1): "optional; absence is treated identically to no
  additional constraints to check". So the resolver is an arbitrary rule evaluation
  \<open>rules\<close> over constraint mappings, and an absent argument is read as the empty mapping.
\<close>

definition isToolAllowedForMode ::
  "(ToolName \<Rightarrow> Mode \<Rightarrow> 'mc list \<Rightarrow> ToolRequirements \<Rightarrow> 'v ToolParams \<Rightarrow> bool) \<Rightarrow>
     ('mc, 'v) resolver" where
  "isToolAllowedForMode rules toolName mode customModes toolRequirements toolParams =
     rules toolName mode customModes
       (nullish toolRequirements Map.empty) (nullish toolParams Map.empty)"

section \<open>The task title: \<open>webview-ui/src/components/chat/TaskHeader.tsx\<close>\<close>

text \<open>
  \<open>ClineMessage\<close> is declared in \<open>shared/ExtensionMessage\<close>, outside the fragment. The
  header reads two optional fields of it, \<open>text\<close> and \<open>images\<close>; whatever else a message
  has is the record's extension.
\<close>

record ClineMessage =
  "text" :: "string option"
  images :: "string list option"

text \<open>
  \<open>String.prototype.indexOf(searchString)\<close>: the index of the first occurrence of
  \<open>searchString\<close>, or \<open>-1\<close> when there is none.
\<close>

fun startsWith :: "'a list \<Rightarrow> 'a list \<Rightarrow> bool" where
  "startsWith s [] = True"
| "startsWith [] (p # ps) = False"
| "startsWith (x # xs) (p # ps) = (x = p \<and> startsWith xs ps)"

fun indexOf :: "'a list \<Rightarrow> 'a list \<Rightarrow> int" where
  "indexOf [] searchString = (if searchString = [] then 0 else - 1)"
| "indexOf (x # xs) searchString =
     (if startsWith (x # xs) searchString then 0
      else (let i = indexOf xs searchString in if i = - 1 then - 1 else i + 1))"

text \<open>
  \<open>String.prototype.substring(indexStart, indexEnd)\<close>: both indices are clamped to
  \<open>0 .. length\<close>, and swapped when the first is the greater.
\<close>

definition substring :: "'a list \<Rightarrow> int \<Rightarrow> int \<Rightarrow> 'a list" where
  "substring s indexStart indexEnd =
     (let len = int (length s);
          a = min (max indexStart 0) len;
          b = min (max indexEnd 0) len;
          lo = min a b;
          hi = max a b
      in take (nat (hi - lo)) (drop (nat lo) s))"

text \<open>The line feed, \<open>"\n"\<close> in the source.\<close>

definition newline :: char where
  "newline = CHR 0x0A"

text \<open>
  The function memoised as \<open>firstLineOfTask\<close>. \<open>!task\<close> holds for an absent task
  (\<open>None\<close>); \<open>!task.text\<close> holds for an absent text and for the empty string. The text
  is a sequence of code units, and the function only ever compares one with the line
  feed.
\<close>

definition firstLineOfTask :: "'a ClineMessage_scheme option \<Rightarrow> string" where
  "firstLineOfTask task =
     (case task of
        None \<Rightarrow> ''''
      | Some t \<Rightarrow>
          (case text t of
             None \<Rightarrow> ''''
           | Some s \<Rightarrow>
               if s = '''' then ''''
               else (let newlineIndex = indexOf s [newline] in
                     if newlineIndex = - 1 then s
                     else substring s 0 newlineIndex)))"

section \<open>Properties of the tool gate\<close>

lemma validateToolUse_cases:
  "validateToolUse R t m cm rq ps =
     (if R t m (nullish cm []) rq ps then Inr ()
      else Inl (new_Error (denial_message t m)))"
  by (simp add: validateToolUse_def)

lemma message_new_Error: "get_prop (new_Error msg) ''message'' = Some msg"
  by (simp add: get_prop_def new_Error_def)

text \<open>
  Claim C1. Whenever the resolver answers \<open>false\<close> on the arguments the gate hands it,
  the gate fails, and the message of the thrown error is exactly
  \<open>Tool "<toolName>" is not allowed in <mode> mode.\<close> with the tool name and the mode
  substituted.
\<close>

theorem validateToolUse_denied_message:
  assumes "\<not> R toolName mode (nullish customModes []) toolRequirements toolParams"
  shows \<open>\<exists>e. validateToolUse R toolName mode customModes toolRequirements toolParams = Inl e
           \<and> get_prop e ''message'' =
               Some (''Tool "'' @ toolName @ ''" is not allowed in '' @ mode @ '' mode.'')\<close>
proof -
  have "validateToolUse R toolName mode customModes toolRequirements toolParams
          = Inl (new_Error (denial_message toolName mode))"
    using assms by (simp add: validateToolUse_cases)
  moreover have \<open>get_prop (new_Error (denial_message toolName mode)) ''message'' =
      Some (''Tool "'' @ toolName @ ''" is not allowed in '' @ mode @ '' mode.'')\<close>
    by (simp add: message_new_Error denial_message_def)
  ultimately show ?thesis by blast
qed

theorem validateToolUse_denied_message_witness:
  \<open>\<not> ask_registry ''execute_command'' ''ask'' (nullish None []) None None
   \<and> (\<exists>e. validateToolUse ask_registry ''execute_command'' ''ask'' None None None = Inl e
        \<and> get_prop e ''message'' = Some ''Tool "execute_command" is not allowed in ask mode.'')\<close>
proof -
  have h: "\<not> ask_registry ''execute_command'' ''ask'' (nullish None []) None None"
    by (simp add: ask_registry_def)
  show ?thesis
    using h validateToolUse_denied_message
      [of ask_registry "''execute_command''" "''ask''" None None None]
    by simp
qed

text \<open>
  Claim C2. The gate fails if and only if the resolver answers \<open>false\<close>; when the
  resolver answers \<open>true\<close> the call returns normally, with the unit value and no error.
  The outcome of a call is one value handed back to its caller: the normal return, or
  the one thrown error.
\<close>

theorem validateToolUse_fails_iff:
  "((\<exists>e. validateToolUse R toolName mode customModes toolRequirements toolParams = Inl e)
      \<longleftrightarrow> \<not> R toolName mode (nullish customModes []) toolRequirements toolParams)
   \<and> (validateToolUse R toolName mode customModes toolRequirements toolParams = Inr ()
      \<longleftrightarrow> R toolName mode (nullish customModes []) toolRequirements toolParams)
   \<and> (validateToolUse R toolName mode customModes toolRequirements toolParams = Inr ()
      \<or> validateToolUse R toolName mode customModes toolRequirements toolParams
           = Inl (new_Error (denial_message toolName mode)))"
  by (simp add: validateToolUse_cases)

theorem validateToolUse_fails_iff_witness:
  "(\<exists>e. validateToolUse ask_registry ''execute_command'' ''ask'' (Some []) None None = Inl e)
   \<and> \<not> ask_registry ''execute_command'' ''ask'' [] None None
   \<and> validateToolUse ask_registry ''read_file'' ''ask'' (Some []) None None = Inr ()
   \<and> ask_registry ''read_file'' ''ask'' [] None None"
proof -
  have denied: "\<not> ask_registry ''execute_command'' ''ask'' [] None None"
    and allowed: "ask_registry ''read_file'' ''ask'' [] None None"
    by (simp_all add: ask_registry_def)
  show ?thesis
    using denied allowed
      validateToolUse_fails_iff
        [of ask_registry "''execute_command''" "''ask''" "Some []" None None]
      validateToolUse_fails_iff
        [of ask_registry "''read_file''" "''ask''" "Some []" None None]
    by (simp add: nullish_def)
qed

lemma get_prop_with_stack:
  "k \<noteq> ''stack'' \<Longrightarrow> get_prop (with_stack trace e) k = get_prop e k"
  by (simp add: get_prop_def with_stack_def)

lemma new_Error_no_field:
  "k \<noteq> ''message'' \<Longrightarrow> k \<noteq> ''name'' \<Longrightarrow> get_prop (new_Error msg) k = None"
  by (simp add: get_prop_def new_Error_def Error_prototype_def)

text \<open>
  Claim C3, as the code has it. On denial the thrown value is an \<open>Error\<close> object that
  carries the human-readable message and has no \<open>toolName\<close> field and no \<open>mode\<close> field;
  this is so for the object as the language standard defines it and for the object with
  an engine's \<open>stack\<close> trace, whatever the trace.
\<close>

theorem validateToolUse_error_no_fields:
  assumes "\<not> R toolName mode (nullish customModes []) toolRequirements toolParams"
  shows \<open>\<exists>e. validateToolUse R toolName mode customModes toolRequirements toolParams = Inl e
           \<and> get_prop e ''message'' =
               Some (''Tool "'' @ toolName @ ''" is not allowed in '' @ mode @ '' mode.'')
           \<and> get_prop e ''toolName'' = None
           \<and> get_prop e ''mode'' = None
           \<and> (\<forall>trace.
                 get_prop (with_stack trace e) ''message'' =
                   Some (''Tool "'' @ toolName @ ''" is not allowed in '' @ mode @ '' mode.'')
                 \<and> get_prop (with_stack trace e) ''toolName'' = None
                 \<and> get_prop (with_stack trace e) ''mode'' = None)\<close>
proof -
  let ?e = "new_Error (denial_message toolName mode)"
  have thrown:
    "validateToolUse R toolName mode customModes toolRequirements toolParams = Inl ?e"
    using assms by (simp add: validateToolUse_cases)
  have msg: \<open>get_prop ?e ''message'' =
      Some (''Tool "'' @ toolName @ ''" is not allowed in '' @ mode @ '' mode.'')\<close>
    by (simp add: message_new_Error denial_message_def)
  have tool: "get_prop ?e ''toolName'' = None"
    by (simp add: new_Error_no_field)
  have mode: "get_prop ?e ''mode'' = None"
    by (simp add: new_Error_no_field)
  have \<open>get_prop (with_stack trace ?e) ''message'' =
            Some (''Tool "'' @ toolName @ ''" is not allowed in '' @ mode @ '' mode.'')
         \<and> get_prop (with_stack trace ?e) ''toolName'' = None
         \<and> get_prop (with_stack trace ?e) ''mode'' = None\<close> for trace
    using msg tool mode by (simp add: get_prop_with_stack)
  with thrown msg tool mode show ?thesis by blast
qed

theorem validateToolUse_error_no_fields_witness:
  \<open>\<not> ask_registry ''execute_command'' ''ask'' (nullish (Some []) []) None None
   \<and> (\<exists>e. validateToolUse ask_registry ''execute_command'' ''ask'' (Some []) None None = Inl e
        \<and> get_prop e ''message'' = Some ''Tool "execute_command" is not allowed in ask mode.''
        \<and> get_prop e ''toolName'' = None
        \<and> get_prop e ''mode'' = None
        \<and> (\<forall>trace.
              get_prop (with_stack trace e) ''message''
                = Some ''Tool "execute_command" is not allowed in ask mode.''
              \<and> get_prop (with_stack trace e) ''toolName'' = None
              \<and> get_prop (with_stack trace e) ''mode'' = None))\<close>
proof -
  have h: "\<not> ask_registry ''execute_command'' ''ask'' (nullish (Some []) []) None None"
    by (simp add: ask_registry_def)
  show ?thesis
    using h validateToolUse_error_no_fields
      [of ask_registry "''execute_command''" "''ask''" "Some []" None None]
    by simp
qed

text \<open>
  Claim C3, as stated, fails: the call \<open>validateToolUse("execute_command", "ask", [])\<close>
  is denied, and the object it throws has neither a \<open>toolName\<close> nor a \<open>mode\<close> field.
\<close>

theorem validateToolUse_error_fields_counterexample:
  \<open>validateToolUse ask_registry ''execute_command'' ''ask'' (Some []) None None
     = Inl (new_Error ''Tool "execute_command" is not allowed in ask mode.'')
   \<and> get_prop (new_Error ''Tool "execute_command" is not allowed in ask mode.'') ''toolName''
       \<noteq> Some ''execute_command''
   \<and> get_prop (new_Error ''Tool "execute_command" is not allowed in ask mode.'') ''mode''
       \<noteq> Some ''ask''\<close>
  by (simp add: validateToolUse_def ask_registry_def nullish_def denial_message_def
      get_prop_def new_Error_def Error_prototype_def)

lemma validateToolUse_forwards:
  "validateToolUse R t m cm rq ps = validateToolUse R t m cm' rq' ps'
     \<longleftrightarrow> R t m (nullish cm []) rq ps = R t m (nullish cm' []) rq' ps'"
  by (simp add: validateToolUse_cases)

lemma validateToolUse_call_outcome:
  "fst (validateToolUse_call R t m st) =
     validateToolUse R t m (customModes_of st) (toolRequirements_of st) (toolParams_of st)"
  by (simp add: validateToolUse_call_def)

lemma validateToolUse_call_store: "snd (validateToolUse_call R t m st) = st"
  by (simp add: validateToolUse_call_def)

text \<open>
  Claim C4. The outcome is a function of the tuple (tool name, mode, custom modes,
  requirements, parameters) and the resolver: two calls on identical inputs have the
  identical outcome, both the normal return or both the failure with the same denial
  message. This also holds for a second call made after the first, on the store the
  first one leaves: nothing of the first call reaches the second.
\<close>

theorem validateToolUse_deterministic:
  assumes "toolName' = toolName" and "mode' = mode" and "customModes' = customModes"
    and "toolRequirements' = toolRequirements" and "toolParams' = toolParams"
  shows "validateToolUse R toolName' mode' customModes' toolRequirements' toolParams'
           = validateToolUse R toolName mode customModes toolRequirements toolParams
         \<and> (validateToolUse R toolName mode customModes toolRequirements toolParams = Inr ()
            \<or> validateToolUse R toolName mode customModes toolRequirements toolParams
                 = Inl (new_Error (denial_message toolName mode)))
         \<and> fst (validateToolUse_call R toolName mode
                  (snd (validateToolUse_call R toolName mode st)))
             = fst (validateToolUse_call R toolName mode st)"
proof -
  have "validateToolUse R toolName' mode' customModes' toolRequirements' toolParams'
          = validateToolUse R toolName mode customModes toolRequirements toolParams"
    using assms by simp
  moreover have
    "validateToolUse R toolName mode customModes toolRequirements toolParams = Inr ()
       \<or> validateToolUse R toolName mode customModes toolRequirements toolParams
            = Inl (new_Error (denial_message toolName mode))"
    by (simp add: validateToolUse_cases)
  moreover have
    "fst (validateToolUse_call R toolName mode (snd (validateToolUse_call R toolName mode st)))
       = fst (validateToolUse_call R toolName mode st)"
    by (simp add: validateToolUse_call_store)
  ultimately show ?thesis by blast
qed

theorem validateToolUse_deterministic_witness:
  \<open>validateToolUse ask_registry (''execute_'' @ ''command'') ''ask'' (Some ([] @ [])) None None
     = validateToolUse ask_registry ''execute_command'' ''ask'' (Some []) None None
   \<and> validateToolUse ask_registry ''execute_command'' ''ask'' (Some []) None None
       = Inl (new_Error ''Tool "execute_command" is not allowed in ask mode.'')
   \<and> fst (validateToolUse_call ask_registry ''execute_command'' ''ask''
            (snd (validateToolUse_call ask_registry ''execute_command'' ''ask''
               \<lparr>customModes_of = Some [], toolRequirements_of = None, toolParams_of = None\<rparr>)))
       = Inl (new_Error ''Tool "execute_command" is not allowed in ask mode.'')\<close>
proof -
  have args: "''execute_'' @ ''command'' = ''execute_command''" "''ask'' = ''ask''"
    "Some ([] @ []) = Some ([] :: string list)"
    "(None :: ToolRequirements option) = None" "(None :: string ToolParams option) = None"
    by simp_all
  have denied: "\<not> ask_registry ''execute_command'' ''ask'' [] None None"
    by (simp add: ask_registry_def)
  show ?thesis
    using denied
      validateToolUse_deterministic [OF args, of ask_registry
        "\<lparr>customModes_of = Some [], toolRequirements_of = None, toolParams_of = None\<rparr>"]
    by (simp add: validateToolUse_cases validateToolUse_call_outcome nullish_def
        denial_message_def)
qed

text \<open>
  Claim C5. With the empty collection of custom modes the call is total: its outcome
  is the normal return or the denial, and which of the two is what the resolver decides
  for the tool, the mode, the empty collection and the two optional arguments.
\<close>

theorem validateToolUse_empty_customModes:
  "validateToolUse R toolName mode (Some []) toolRequirements toolParams =
     (if R toolName mode [] toolRequirements toolParams then Inr ()
      else Inl (new_Error (denial_message toolName mode)))"
  by (simp add: validateToolUse_cases nullish_def)

text \<open>
  Claim C6. With \<open>toolRequirements\<close> and \<open>toolParams\<close> omitted the outcome is the one of
  the call that passes two empty mappings. The gate hands both arguments to the resolver
  as they are (\<open>validateToolUse_forwards\<close>), so this is a property of the resolver, here
  the one modelled from the specification over any rule evaluation.
\<close>

theorem validateToolUse_omitted_constraints:
  "validateToolUse (isToolAllowedForMode rules) toolName mode customModes None None
     = validateToolUse (isToolAllowedForMode rules) toolName mode customModes
         (Some Map.empty) (Some Map.empty)"
  by (simp add: validateToolUse_forwards isToolAllowedForMode_def nullish_def)

text \<open>
  Claim C7. A call leaves the caller's store as it found it: the values of
  \<open>customModes\<close>, \<open>toolRequirements\<close> and \<open>toolParams\<close> after the call are their values
  before it, whether the call returned or threw, and the call yields nothing but its
  outcome.
\<close>

theorem validateToolUse_call_frame:
  "snd (validateToolUse_call R toolName mode st) = st
   \<and> customModes_of (snd (validateToolUse_call R toolName mode st)) = customModes_of st
   \<and> toolRequirements_of (snd (validateToolUse_call R toolName mode st))
       = toolRequirements_of st
   \<and> toolParams_of (snd (validateToolUse_call R toolName mode st)) = toolParams_of st
   \<and> validateToolUse_call R toolName mode st =
       (if R toolName mode (nullish (customModes_of st) [])
             (toolRequirements_of st) (toolParams_of st)
        then (Inr (), st)
        else (Inl (new_Error (denial_message toolName mode)), st))"
  by (simp add: validateToolUse_call_def validateToolUse_cases)

text \<open>
  Claim C8. With a resolver under which mode \<open>ask\<close> disallows \<open>execute_command\<close> and
  allows \<open>read_file\<close>, the call \<open>("execute_command", "ask", [])\<close> fails with the message
  \<open>Tool "execute_command" is not allowed in ask mode.\<close> and the call
  \<open>("read_file", "ask", [])\<close> returns normally.
\<close>

theorem validateToolUse_ask_scenario:
  assumes "\<not> R ''execute_command'' ''ask'' [] None None"
    and "R ''read_file'' ''ask'' [] None None"
  shows \<open>(\<exists>e. validateToolUse R ''execute_command'' ''ask'' (Some []) None None = Inl e
            \<and> get_prop e ''message''
                = Some ''Tool "execute_command" is not allowed in ask mode.'')
          \<and> validateToolUse R ''read_file'' ''ask'' (Some []) None None = Inr ()\<close>
proof -
  have \<open>validateToolUse R ''execute_command'' ''ask'' (Some []) None None
          = Inl (new_Error ''Tool "execute_command" is not allowed in ask mode.'')\<close>
    using assms(1) by (simp add: validateToolUse_cases nullish_def denial_message_def)
  moreover have "validateToolUse R ''read_file'' ''ask'' (Some []) None None = Inr ()"
    using assms(2) by (simp add: validateToolUse_cases nullish_def)
  ultimately show ?thesis
    by (simp add: message_new_Error)
qed

theorem validateToolUse_ask_scenario_witness:
  \<open>\<not> ask_registry ''execute_command'' ''ask'' [] None None
   \<and> ask_registry ''read_file'' ''ask'' [] None None
   \<and> (\<exists>e. validateToolUse ask_registry ''execute_command'' ''ask'' (Some []) None None = Inl e
        \<and> get_prop e ''message''
            = Some ''Tool "execute_command" is not allowed in ask mode.'')
   \<and> validateToolUse ask_registry ''read_file'' ''ask'' (Some []) None None = Inr ()\<close>
proof -
  have denied: "\<not> ask_registry ''execute_command'' ''ask'' [] None None"
    and allowed: "ask_registry ''read_file'' ''ask'' [] None None"
    by (simp_all add: ask_registry_def)
  show ?thesis
    using denied allowed validateToolUse_ask_scenario [of ask_registry]
    by simp
qed

text \<open>
  Claim C9. With the \<open>customModes\<close> argument omitted the outcome is the one of the call
  that passes the empty array: the omitted argument is replaced by \<open>[]\<close> before the
  resolver is asked.
\<close>

theorem validateToolUse_customModes_default:
  "validateToolUse R toolName mode None toolRequirements toolParams
     = validateToolUse R toolName mode (Some []) toolRequirements toolParams
   \<and> validateToolUse R toolName mode None toolRequirements toolParams
     = (if R toolName mode [] toolRequirements toolParams then Inr ()
        else Inl (new_Error (denial_message toolName mode)))"
  by (simp add: validateToolUse_cases nullish_def)

section \<open>Properties of the task title\<close>

lemma indexOf_lower_bound: "- 1 \<le> indexOf s p"
  by (induction s) (auto simp: Let_def)

lemma startsWith_unit: "startsWith s [c] \<longleftrightarrow> (\<exists>xs. s = c # xs)"
  by (cases s) auto

lemma indexOf_unit_absent: "indexOf s [c] = - 1 \<longleftrightarrow> c \<notin> set s"
proof (induction s)
  case Nil
  show ?case by simp
next
  case (Cons x xs)
  have "- 1 \<le> indexOf xs [c]"
    by (rule indexOf_lower_bound)
  with Cons show ?case
    by (auto simp: Let_def)
qed

lemma indexOf_unit_present:
  "c \<in> set s \<Longrightarrow> indexOf s [c] = int (length (takeWhile (\<lambda>x. x \<noteq> c) s))"
  by (induction s) (auto simp: Let_def indexOf_unit_absent)

lemma substring_from_start:
  "0 \<le> n \<Longrightarrow> n \<le> int (length s) \<Longrightarrow> substring s 0 n = take (nat n) s"
  by (simp add: substring_def Let_def)

lemma take_length_takeWhile: "take (length (takeWhile P s)) s = takeWhile P s"
  by (induction s) auto

lemma firstLineOfTask_with_newline:
  assumes "text t = Some s" and "newline \<in> set s"
  shows "firstLineOfTask (Some t) = takeWhile (\<lambda>c. c \<noteq> newline) s"
proof -
  let ?k = "length (takeWhile (\<lambda>c. c \<noteq> newline) s)"
  have idx: "indexOf s [newline] = int ?k"
    using assms(2) by (rule indexOf_unit_present)
  have "s \<noteq> []"
    using assms(2) by auto
  moreover have "int ?k \<le> int (length s)"
    by (simp add: length_takeWhile_le)
  then have "substring s 0 (int ?k) = take ?k s"
    by (simp add: substring_from_start)
  ultimately show ?thesis
    using assms(1) idx by (simp add: firstLineOfTask_def Let_def take_length_takeWhile)
qed

lemma firstLineOfTask_without_newline:
  assumes "text t = Some s" and "newline \<notin> set s"
  shows "firstLineOfTask (Some t) = s"
  using assms by (simp add: firstLineOfTask_def Let_def indexOf_unit_absent)

text \<open>
  Claim C10. The title of the collapsed header: it is the empty string when the task
  is absent or its text is absent or empty; it is the whole text when the text has no
  line feed; otherwise it is the part of the text before the first line feed, that
  is, the text is the title, a line feed and a rest, and the title has no line feed.
\<close>

theorem firstLineOfTask_first_line:
  "firstLineOfTask None = ''''
   \<and> (text t = None \<or> text t = Some '''' \<longrightarrow> firstLineOfTask (Some t) = '''')
   \<and> (text t = Some s \<and> newline \<notin> set s \<longrightarrow> firstLineOfTask (Some t) = s)
   \<and> (text t = Some s \<and> newline \<in> set s \<longrightarrow>
        firstLineOfTask (Some t) = takeWhile (\<lambda>c. c \<noteq> newline) s
        \<and> (\<exists>rest. s = firstLineOfTask (Some t) @ newline # rest)
        \<and> newline \<notin> set (firstLineOfTask (Some t)))"
proof -
  have absent: "firstLineOfTask None = ''''"
    by (simp add: firstLineOfTask_def)
  have empty: "text t = None \<or> text t = Some '''' \<longrightarrow> firstLineOfTask (Some t) = ''''"
    by (auto simp: firstLineOfTask_def)
  have whole: "text t = Some s \<and> newline \<notin> set s \<longrightarrow> firstLineOfTask (Some t) = s"
    by (simp add: firstLineOfTask_without_newline)
  have first: "firstLineOfTask (Some t) = takeWhile (\<lambda>c. c \<noteq> newline) s
        \<and> (\<exists>rest. s = firstLineOfTask (Some t) @ newline # rest)
        \<and> newline \<notin> set (firstLineOfTask (Some t))"
    if t: "text t = Some s" and nl: "newline \<in> set s"
  proof -
    let ?p = "takeWhile (\<lambda>c. c \<noteq> newline) s"
    have eq: "firstLineOfTask (Some t) = ?p"
      using t nl by (rule firstLineOfTask_with_newline)
    have "dropWhile (\<lambda>c. c \<noteq> newline) s \<noteq> []"
      using nl by (simp add: dropWhile_eq_Nil_conv)
    then obtain y ys where d: "dropWhile (\<lambda>c. c \<noteq> newline) s = y # ys"
      by (cases "dropWhile (\<lambda>c. c \<noteq> newline) s") auto
    have "\<not> (y \<noteq> newline)"
      using hd_dropWhile [of "\<lambda>c. c \<noteq> newline" s] d by simp
    then have "y = newline" by simp
    with d have "s = ?p @ newline # ys"
      using takeWhile_dropWhile_id [of "\<lambda>c. c \<noteq> newline" s] by simp
    moreover have "newline \<notin> set ?p"
      by (auto dest: set_takeWhileD)
    ultimately show ?thesis
      using eq by auto
  qed
  from absent empty whole first show ?thesis by blast
qed

theorem firstLineOfTask_first_line_witness:
  "firstLineOfTask
      (Some \<lparr>text = Some (''fix the bug'' @ [newline] @ ''details'' @ [newline] @ ''more''),
             images = None\<rparr>)
     = ''fix the bug''
   \<and> firstLineOfTask (Some \<lparr>text = Some ''one line'', images = None\<rparr>) = ''one line''
   \<and> firstLineOfTask (Some \<lparr>text = Some '''', images = None\<rparr>) = ''''
   \<and> firstLineOfTask (Some \<lparr>text = None, images = None\<rparr>) = ''''"
proof -
  let ?two = "\<lparr>text = Some (''fix the bug'' @ [newline] @ ''details'' @ [newline] @ ''more''),
                images = None\<rparr>"
  let ?one = "\<lparr>text = Some ''one line'', images = None\<rparr>"
  let ?none = "\<lparr>text = Some '''', images = None\<rparr>"
  let ?absent = "\<lparr>text = None, images = None\<rparr>"
  have two: "text ?two = Some (''fix the bug'' @ [newline] @ ''details'' @ [newline] @ ''more'')
      \<and> newline \<in> set (''fix the bug'' @ [newline] @ ''details'' @ [newline] @ ''more'')"
    by simp
  have one: "text ?one = Some ''one line'' \<and> newline \<notin> set ''one line''"
    by (simp add: newline_def)
  have none: "text ?none = None \<or> text ?none = Some ''''"
    by simp
  have absent: "text ?absent = None \<or> text ?absent = Some ''''"
    by simp
  have "firstLineOfTask (Some ?two) = takeWhile (\<lambda>c. c \<noteq> newline)
      (''fix the bug'' @ [newline] @ ''details'' @ [newline] @ ''more'')"
    using two firstLineOfTask_first_line
        [of ?two "''fix the bug'' @ [newline] @ ''details'' @ [newline] @ ''more''"]
    by blast
  then have "firstLineOfTask (Some ?two) = ''fix the bug''"
    by (simp add: newline_def)
  moreover have "firstLineOfTask (Some ?one) = ''one line''"
    using one firstLineOfTask_first_line [of ?one "''one line''"] by blast
  moreover have "firstLineOfTask (Some ?none) = ''''"
    using none firstLineOfTask_first_line [of ?none "''''"] by blast
  moreover have "firstLineOfTask (Some ?absent) = ''''"
    using absent firstLineOfTask_first_line [of ?absent "''''"] by blast
  ultimately show ?thesis by blast
qed

end
